theory Spec2Isabelle
  imports Complex_Main "HOL-Library.AList"
begin

section \<open>Edge-device offloading simulation (mininet/mymininet.py)\<close>

text \<open>
  A shallow embedding of the decision logic of \<^verbatim>\<open>mymininet.py\<close>: the rating function,
  the diurnal activity table, the scan over the candidate clouds with its self-processing
  gate, and the load counters the simulation loop maintains.

  Number model. Python's \<^verbatim>\<open>int\<close> is \<^typ>\<open>int\<close>; the load counters, which start at 0
  and are only ever incremented, are \<^typ>\<open>nat\<close>. Python's \<^verbatim>\<open>float\<close> is modelled by
  \<^typ>\<open>real\<close>: every arithmetic operation is the exact one, so the rounding error of
  IEEE-754 doubles, infinities produced by overflow and NaN are outside the model. The
  only non-finite float the source writes down, the initial \<^verbatim>\<open>float('-inf')\<close> of the
  running maximum, is a constructor of its own.
\<close>

subsection \<open>Data model\<close>

text \<open>
  \<^verbatim>\<open>class CloudServer\<close> (lines 11-19): an id and three per-hour profiles, here the
  24 values of hours 0..23 in order. \<^verbatim>\<open>class Device\<close> (lines 21-31): an id and five
  scalar attributes.
\<close>

record cloud_server =
  cloud_id :: int
  cpu_usage :: "real list"
  cloud_bandwidth :: "real list"
  latency :: "real list"

record device =
  device_id :: int
  cpu :: real
  bandwidth :: real
  delay :: real
  loss :: real
  self_processing_power :: real

text \<open>
  The exceptions the modelled code can raise: a dictionary lookup with a missing key
  (\<^verbatim>\<open>activity[hour]\<close>, \<^verbatim>\<open>cloud_loads[cloud.id]\<close>) and \<^verbatim>\<open>best_entity.id\<close> on
  \<^verbatim>\<open>None\<close>.
\<close>

datatype error = KeyError | AttributeError

text \<open>
  \<^verbatim>\<open>best_entity\<close> is \<^verbatim>\<open>None\<close>, a cloud object or the string \<^verbatim>\<open>'self'\<close>.
\<close>

datatype entity = NoEntity | Cloud cloud_server | Self

text \<open>
  \<^verbatim>\<open>best_score\<close> starts at \<^verbatim>\<open>float('-inf')\<close> and afterwards holds a score.
  \<open>gt x b\<close> is the comparison \<^verbatim>\<open>x > best_score\<close>.
\<close>

datatype best = NegInf | Score real

fun gt :: "real \<Rightarrow> best \<Rightarrow> bool" where
  "gt x NegInf = True"
| "gt x (Score y) = (y < x)"

text \<open>
  \<^verbatim>\<open>cloud_loads\<close> is a Python dictionary from cloud id to counter. It is an association
  list here, in insertion order; a dictionary has each key once, which is
  \<open>distinct (map fst loads)\<close>.
\<close>

type_synonym loads = "(int \<times> nat) list"

text \<open>
  The measurement collaborator \<^verbatim>\<open>measure_performance(net, src, dst)\<close> is called with
  the hosts named \<^verbatim>\<open>device{device.id}\<close> and \<^verbatim>\<open>cloud{cloud.id}\<close>; what the network
  answers is a parameter of the model, a function of the two ids to the triple
  (bandwidth, delay, loss).
\<close>

type_synonym probe = "int \<Rightarrow> int \<Rightarrow> real \<times> real \<times> real"

subsection \<open>Activity table (lines 58-65)\<close>

definition activity_table :: "(int \<times> real) list" where
  "activity_table =
     [(0, 0.2), (1, 0.1), (2, 0.1), (3, 0.1), (4, 0.2), (5, 0.3),
      (6, 0.4), (7, 0.6), (8, 0.8), (9, 0.9), (10, 0.9), (11, 0.9),
      (12, 0.8), (13, 0.7), (14, 0.8), (15, 0.9), (16, 1.0), (17, 1.0),
      (18, 0.9), (19, 0.8), (20, 0.7), (21, 0.6), (22, 0.5), (23, 0.3)]"

definition get_network_activity :: "int \<Rightarrow> error + real" where
  "get_network_activity hour =
     (case map_of activity_table hour of None \<Rightarrow> Inl KeyError | Some a \<Rightarrow> Inr a)"

subsection \<open>Parsing the probe output (lines 67-87)\<close>

text \<open>
  \<^verbatim>\<open>measure_performance\<close> runs iperf and ping and searches their output with three
  regular expressions. The commands and the matching are the network's business; the
  model starts from the three match results: the iperf value with its unit letter, the
  average round-trip time, the loss percentage, each absent when its pattern did not
  match.
\<close>

datatype unit_letter = G | M | K

definition measure_performance ::
  "(real \<times> unit_letter) option \<Rightarrow> real option \<Rightarrow> real option \<Rightarrow> real \<times> real \<times> real" where
  "measure_performance match delay_match loss_match =
     (let bandwidth0 =
            (case match of
               None \<Rightarrow> 0
             | Some (v, u) \<Rightarrow> (case u of G \<Rightarrow> v * 1000 | M \<Rightarrow> v | K \<Rightarrow> v / 1000));
          delay0 = (case delay_match of Some d \<Rightarrow> d | None \<Rightarrow> 0);
          loss0 = (case loss_match of Some l \<Rightarrow> l | None \<Rightarrow> 0)
      in (bandwidth0, delay0, loss0))"

subsection \<open>Rating (lines 89-94)\<close>

text \<open>
  Python's \<^verbatim>\<open>round(x, ndigits)\<close> on the exact value: the nearest multiple of
  \<open>10\<^sup>-\<^sup>n\<close>, a tie going to the even one. \<open>round_half_even\<close> is the
  rounding to an integer that it scales.
\<close>

definition round_half_even :: "real \<Rightarrow> int" where
  "round_half_even y =
     (let f = \<lfloor>y\<rfloor>; r = y - of_int f
      in if r < 1/2 then f
         else if 1/2 < r then f + 1
         else if even f then f else f + 1)"

definition py_round :: "real \<Rightarrow> nat \<Rightarrow> real" where
  "py_round x ndigits = of_int (round_half_even (x * 10 ^ ndigits)) / 10 ^ ndigits"

definition calculate_rating :: "real \<Rightarrow> real \<Rightarrow> real \<Rightarrow> real" where
  "calculate_rating bandwidth0 delay0 loss0 =
     (let norm_bandwidth = bandwidth0 / 100;
          norm_delay = delay0 / 100;
          norm_loss = loss0 / 100;
          rating = 5 * (0.2 * norm_bandwidth + 0.4 * (1 - norm_delay) + 0.4 * (1 - norm_loss))
      in py_round (max 0 (min 5 rating)) 2)"

subsection \<open>The decision engine (lines 96-140)\<close>

text \<open>The six \<^verbatim>\<open>best_*\<close> variables of \<^verbatim>\<open>select_best_cloud\<close>.\<close>

record scan_state =
  best_entity :: entity
  best_score :: best
  best_rating :: real
  best_bandwidth :: real
  best_delay :: real
  best_loss :: real

definition initial_state :: scan_state where
  "initial_state =
     \<lparr>best_entity = NoEntity, best_score = NegInf, best_rating = 0,
      best_bandwidth = 0, best_delay = 0, best_loss = 0\<rparr>"

text \<open>Line 108.\<close>

definition performance_score :: "real \<Rightarrow> real \<Rightarrow> real \<Rightarrow> real" where
  "performance_score bandwidth0 delay0 loss0 =
     (bandwidth0 / 100) - (delay0 / 100) - (loss0 / 10)"

text \<open>
  Lines 110-114. \<^verbatim>\<open>cloud_loads[cloud.id]\<close> is evaluated only in the \<^verbatim>\<open>else\<close>
  branch, so a missing key raises only when the total is not zero.
\<close>

definition total_load :: "loads \<Rightarrow> nat" where
  "total_load cloud_loads = sum_list (map snd cloud_loads)"

definition load_score :: "loads \<Rightarrow> int \<Rightarrow> error + real" where
  "load_score cloud_loads cid =
     (if total_load cloud_loads = 0 then Inr 1
      else (case map_of cloud_loads cid of
              None \<Rightarrow> Inl KeyError
            | Some n \<Rightarrow> Inr (1 - real n / real (total_load cloud_loads))))"

text \<open>Lines 116-119.\<close>

definition combined_score :: "real \<Rightarrow> real \<Rightarrow> real \<Rightarrow> real" where
  "combined_score activity perf ls =
     (if activity > 0.7 then perf * 0.4 + ls * 0.6 else perf * 0.7 + ls * 0.3)"

text \<open>One iteration of the \<^verbatim>\<open>for cloud in cloud_servers\<close> loop, lines 106-127.\<close>

definition loop_body ::
  "probe \<Rightarrow> device \<Rightarrow> loads \<Rightarrow> real \<Rightarrow> scan_state \<Rightarrow> cloud_server \<Rightarrow> error + scan_state" where
  "loop_body m dev cloud_loads activity st c =
     (case m (device_id dev) (cloud_id c) of (bandwidth0, delay0, loss0) \<Rightarrow>
        (let rating = calculate_rating bandwidth0 delay0 loss0;
             perf = performance_score bandwidth0 delay0 loss0
         in (case load_score cloud_loads (cloud_id c) of
               Inl e \<Rightarrow> Inl e
             | Inr ls \<Rightarrow>
                 (let score = combined_score activity perf ls
                  in Inr (if gt score (best_score st)
                          then \<lparr>best_entity = Cloud c, best_score = Score score,
                                best_rating = rating, best_bandwidth = bandwidth0,
                                best_delay = delay0, best_loss = loss0\<rparr>
                          else st)))))"

text \<open>The loop: an exception leaves it at once.\<close>

fun scan ::
  "probe \<Rightarrow> device \<Rightarrow> loads \<Rightarrow> real \<Rightarrow> scan_state \<Rightarrow> cloud_server list \<Rightarrow> error + scan_state" where
  "scan m dev cloud_loads activity st [] = Inr st"
| "scan m dev cloud_loads activity st (c # cs) =
     (case loop_body m dev cloud_loads activity st c of
        Inl e \<Rightarrow> Inl e
      | Inr st' \<Rightarrow> scan m dev cloud_loads activity st' cs)"

text \<open>Line 130.\<close>

definition self_score :: "device \<Rightarrow> real" where
  "self_score dev = self_processing_power dev - (cpu dev * 0.2)"

text \<open>
  Lines 129-140: the gate and the returned tuple
  (entity, bandwidth, delay, loss, rating).
\<close>

definition finish :: "device \<Rightarrow> scan_state \<Rightarrow> entity \<times> real \<times> real \<times> real \<times> real" where
  "finish dev st =
     (let self_rating = calculate_rating (bandwidth dev) (delay dev) (loss dev) in
      if gt (self_score dev) (best_score st) \<and> best_rating st < 1.0
      then (Self, bandwidth dev, delay dev, loss dev, self_rating)
      else (best_entity st, best_bandwidth st, best_delay st, best_loss st, best_rating st))"

definition select_best_cloud ::
  "probe \<Rightarrow> device \<Rightarrow> cloud_server list \<Rightarrow> loads \<Rightarrow> int
     \<Rightarrow> error + (entity \<times> real \<times> real \<times> real \<times> real)" where
  "select_best_cloud m dev cloud_servers cloud_loads hour =
     (case get_network_activity hour of
        Inl e \<Rightarrow> Inl e
      | Inr activity \<Rightarrow>
          (case scan m dev cloud_loads activity initial_state cloud_servers of
             Inl e \<Rightarrow> Inl e
           | Inr st \<Rightarrow> Inr (finish dev st)))"

text \<open>
  The score and the rating that an iteration computes for candidate \<open>c\<close> (lines
  106-119), on their own: \<open>loop_body\<close> compares the first with the running maximum and
  stores both.
\<close>

definition candidate_score ::
  "probe \<Rightarrow> device \<Rightarrow> loads \<Rightarrow> real \<Rightarrow> cloud_server \<Rightarrow> error + real" where
  "candidate_score m dev cloud_loads activity c =
     (case m (device_id dev) (cloud_id c) of (bandwidth0, delay0, loss0) \<Rightarrow>
        (case load_score cloud_loads (cloud_id c) of
           Inl e \<Rightarrow> Inl e
         | Inr ls \<Rightarrow>
             Inr (combined_score activity (performance_score bandwidth0 delay0 loss0) ls)))"

definition candidate_rating :: "probe \<Rightarrow> device \<Rightarrow> cloud_server \<Rightarrow> real" where
  "candidate_rating m dev c =
     (case m (device_id dev) (cloud_id c) of (bandwidth0, delay0, loss0) \<Rightarrow>
        calculate_rating bandwidth0 delay0 loss0)"

subsection \<open>The simulation loop and the load counters (lines 162-208)\<close>

text \<open>
  Line 165, \<^verbatim>\<open>{cloud.id: 0 for cloud in cloud_servers}\<close>: every id is stored with 0,
  a repeated id keeping its first place.
\<close>

definition initial_loads :: "cloud_server list \<Rightarrow> loads" where
  "initial_loads cloud_servers =
     foldl (\<lambda>acc c. AList.update (cloud_id c) 0 acc) [] cloud_servers"

text \<open>Line 190, \<^verbatim>\<open>cloud_loads[k] += 1\<close>: the read raises on a missing key.\<close>

definition increment :: "loads \<Rightarrow> int \<Rightarrow> error + loads" where
  "increment cloud_loads k =
     (case map_of cloud_loads k of
        None \<Rightarrow> Inl KeyError
      | Some n \<Rightarrow> Inr (AList.update k (n + 1) cloud_loads))"

text \<open>
  What one iteration of \<^verbatim>\<open>for device in devices\<close> (lines 183-191) does to
  \<^verbatim>\<open>cloud_loads\<close>. The comparison \<^verbatim>\<open>best_entity == 'self'\<close> is false for a cloud and
  for \<^verbatim>\<open>None\<close>; the \<^verbatim>\<open>else\<close> branch then reads \<^verbatim>\<open>best_entity.id\<close>. The row
  written to the CSV file and the printing are not modelled.
\<close>

definition device_step ::
  "probe \<Rightarrow> cloud_server list \<Rightarrow> int \<Rightarrow> loads \<Rightarrow> device \<Rightarrow> error + loads" where
  "device_step m cloud_servers hour cloud_loads dev =
     (case select_best_cloud m dev cloud_servers cloud_loads hour of
        Inl e \<Rightarrow> Inl e
      | Inr (entity0, bandwidth0, delay0, loss0, rating) \<Rightarrow>
          (case entity0 of
             Self \<Rightarrow> Inr cloud_loads
           | Cloud c \<Rightarrow> increment cloud_loads (cloud_id c)
           | NoEntity \<Rightarrow> Inl AttributeError))"

text \<open>
  The \<^verbatim>\<open>for\<close> loop over the devices. The dictionary is mutated in place, so when
  an exception ends the loop the counters stay as they were at that moment: the result
  is the dictionary together with the exception, if any.
\<close>

fun run_devices ::
  "probe \<Rightarrow> cloud_server list \<Rightarrow> int \<Rightarrow> loads \<Rightarrow> device list \<Rightarrow> loads \<times> error option" where
  "run_devices m cloud_servers hour cloud_loads [] = (cloud_loads, None)"
| "run_devices m cloud_servers hour cloud_loads (dev # devs) =
     (case device_step m cloud_servers hour cloud_loads dev of
        Inl e \<Rightarrow> (cloud_loads, Some e)
      | Inr cloud_loads' \<Rightarrow> run_devices m cloud_servers hour cloud_loads' devs)"

text \<open>
  The \<^verbatim>\<open>while\<close> loop (line 174) runs as long as the wall clock allows, and the clock
  also gives each cycle its \<^verbatim>\<open>simulated_hour\<close>. The clock and the network are the
  environment: a run is driven by the list of its cycles, each with the hour the clock
  gave and the answers the network gives during that cycle.
\<close>

fun run_cycles ::
  "cloud_server list \<Rightarrow> device list \<Rightarrow> loads \<Rightarrow> (int \<times> probe) list \<Rightarrow> loads \<times> error option" where
  "run_cycles cloud_servers devices cloud_loads [] = (cloud_loads, None)"
| "run_cycles cloud_servers devices cloud_loads ((hour, m) # cycles) =
     (case run_devices m cloud_servers hour cloud_loads devices of
        (cloud_loads', Some e) \<Rightarrow> (cloud_loads', Some e)
      | (cloud_loads', None) \<Rightarrow> run_cycles cloud_servers devices cloud_loads' cycles)"

definition run_simulation ::
  "cloud_server list \<Rightarrow> device list \<Rightarrow> (int \<times> probe) list \<Rightarrow> loads \<times> error option" where
  "run_simulation cloud_servers devices cycles =
     run_cycles cloud_servers devices (initial_loads cloud_servers) cycles"

subsection \<open>Definitions used to state the properties\<close>

text \<open>
  The rating as the specification words it: the weighted formula, a clamp to the interval
  from 0 to 5, and a rounding to two decimal places. \<open>rounded_to_2_places r x\<close> says
  that \<open>r\<close> is a multiple of one hundredth and at most half a hundredth away from
  \<open>x\<close>; it leaves open which way a tie goes.
\<close>

definition rating_formula :: "real \<Rightarrow> real \<Rightarrow> real \<Rightarrow> real" where
  "rating_formula b d l = 5 * (0.2 * (b / 100) + 0.4 * (1 - d / 100) + 0.4 * (1 - l / 100))"

definition clamp_0_5 :: "real \<Rightarrow> real" where
  "clamp_0_5 x = (if x < 0 then 0 else if 5 < x then 5 else x)"

definition rounded_to_2_places :: "real \<Rightarrow> real \<Rightarrow> bool" where
  "rounded_to_2_places r x \<longleftrightarrow> of_int \<lfloor>r * 100\<rfloor> = r * 100 \<and> \<bar>r - x\<bar> \<le> 1 / 200"

text \<open>
  The combined score as the specification words it, from the activity, the measured
  triple and the load score.
\<close>

definition weighted_score :: "real \<Rightarrow> real \<Rightarrow> real \<Rightarrow> real \<Rightarrow> real \<Rightarrow> real" where
  "weighted_score activity b d l ls =
     (if 0.7 < activity
      then 0.4 * (b / 100 - d / 100 - l / 10) + 0.6 * ls
      else 0.7 * (b / 100 - d / 100 - l / 10) + 0.3 * ls)"

text \<open>
  The state of the scan right after candidate \<open>c\<close> has become the best one with score
  \<open>s\<close>, and the invariant of the scan: the state is that of some candidate seen so
  far whose score no candidate seen so far exceeds.
\<close>

definition chosen :: "probe \<Rightarrow> device \<Rightarrow> real \<Rightarrow> cloud_server \<Rightarrow> scan_state" where
  "chosen m dev s c =
     (case m (device_id dev) (cloud_id c) of (bandwidth0, delay0, loss0) \<Rightarrow>
        \<lparr>best_entity = Cloud c, best_score = Score s,
         best_rating = calculate_rating bandwidth0 delay0 loss0,
         best_bandwidth = bandwidth0, best_delay = delay0, best_loss = loss0\<rparr>)"

definition is_best ::
  "probe \<Rightarrow> device \<Rightarrow> loads \<Rightarrow> real \<Rightarrow> cloud_server list \<Rightarrow> scan_state \<Rightarrow> bool" where
  "is_best m dev cloud_loads a cs st \<longleftrightarrow>
     (\<exists>c\<in>set cs. \<exists>s. st = chosen m dev s c
        \<and> candidate_score m dev cloud_loads a c = Inr s
        \<and> (\<forall>c'\<in>set cs. \<exists>s'. candidate_score m dev cloud_loads a c' = Inr s' \<and> s' \<le> s))"

text \<open>
  Two states of the load dictionary, the second no smaller than the first: the same keys
  in the same order, and no counter has gone down.
\<close>

definition counters_nondecreasing :: "loads \<Rightarrow> loads \<Rightarrow> bool" where
  "counters_nondecreasing before after \<longleftrightarrow>
     map fst after = map fst before
     \<and> list_all2 (\<lambda>x y. snd x \<le> snd y) before after"

subsection \<open>Concrete inputs\<close>

text \<open>
  A device and clouds with values from the ranges \<^verbatim>\<open>create_network\<close> draws from
  (lines 47-52), and three answers of the network: a poor link (no throughput, 100 ms,
  60 percent loss), a good one (500 Mbit/s, 10 ms, no loss), and a network in which
  cloud 1 is slow but loss-free (10 Mbit/s, 160 ms) and every other cloud is quicker but
  lossy (10 Mbit/s, 50 ms, 20 percent loss), and a network in which cloud 1 has the faster
  link (500 against 400 Mbit/s, both 10 ms, no loss).
\<close>

definition example_device :: device where
  "example_device =
     \<lparr>device_id = 1, cpu = 0.1, bandwidth = 50, delay = 10, loss = 1,
      self_processing_power = 0.3\<rparr>"

definition example_cloud :: "int \<Rightarrow> cloud_server" where
  "example_cloud i =
     \<lparr>cloud_id = i, cpu_usage = replicate 24 0.6, cloud_bandwidth = replicate 24 600,
      latency = replicate 24 20\<rparr>"

definition poor_probe :: probe where
  "poor_probe = (\<lambda>i j. (0, 100, 60))"

definition good_probe :: probe where
  "good_probe = (\<lambda>i j. (500, 10, 0))"

definition mixed_probe :: probe where
  "mixed_probe = (\<lambda>i j. if j = 1 then (10, 160, 0) else (10, 50, 20))"

definition uneven_probe :: probe where
  "uneven_probe = (\<lambda>i j. if j = 1 then (500, 10, 0) else (400, 10, 0))"

section \<open>Auxiliary facts\<close>

subsection \<open>Rounding\<close>

lemma rhe_lower: "\<lfloor>y\<rfloor> \<le> round_half_even y"
  by (simp add: round_half_even_def Let_def)

lemma rhe_upper: "round_half_even y \<le> \<lfloor>y\<rfloor> + 1"
  by (simp add: round_half_even_def Let_def)

lemma rhe_mono:
  assumes "x \<le> y"
  shows "round_half_even x \<le> round_half_even y"
proof (cases "\<lfloor>x\<rfloor> = \<lfloor>y\<rfloor>")
  case True
  with assms show ?thesis
    by (auto simp: round_half_even_def Let_def)
next
  case False
  from assms have "\<lfloor>x\<rfloor> \<le> \<lfloor>y\<rfloor>" by (rule floor_mono)
  with False have "\<lfloor>x\<rfloor> + 1 \<le> \<lfloor>y\<rfloor>" by simp
  with rhe_upper [of x] rhe_lower [of y] show ?thesis by linarith
qed

lemma rhe_close: "\<bar>of_int (round_half_even y) - y\<bar> \<le> 1/2"
proof -
  have "of_int \<lfloor>y\<rfloor> \<le> y" "y < of_int \<lfloor>y\<rfloor> + 1" by linarith+
  then show ?thesis
    by (auto simp: round_half_even_def Let_def)
qed

lemma rhe_of_int: "round_half_even (of_int k) = k"
  by (simp add: round_half_even_def)

lemma py_round_mono: "x \<le> y \<Longrightarrow> py_round x n \<le> py_round y n"
  unfolding py_round_def
  by (intro divide_right_mono) (auto intro!: rhe_mono mult_right_mono)

lemma py_round_close: "\<bar>py_round x n - x\<bar> \<le> 1 / (2 * 10 ^ n)"
proof -
  have "\<bar>py_round x n - x\<bar> = \<bar>of_int (round_half_even (x * 10 ^ n)) - x * 10 ^ n\<bar> / 10 ^ n"
    by (simp add: py_round_def field_simps abs_divide)
  also have "\<dots> \<le> (1/2) / 10 ^ n"
    by (intro divide_right_mono rhe_close) simp
  finally show ?thesis by simp
qed

lemma py_round_grid: "of_int \<lfloor>py_round x n * 10 ^ n\<rfloor> = py_round x n * 10 ^ n"
  by (simp add: py_round_def)

lemma py_round_0: "py_round 0 2 = 0"
  by (simp add: py_round_def round_half_even_def)

lemma py_round_5: "py_round 5 2 = 5"
proof -
  have "round_half_even (5 * 10\<^sup>2) = 500"
    using rhe_of_int [of 500] by simp
  then show ?thesis by (simp add: py_round_def)
qed

subsection \<open>Rating\<close>

lemma calculate_rating_alt:
  "calculate_rating b d l = py_round (clamp_0_5 (rating_formula b d l)) 2"
  by (simp add: calculate_rating_def rating_formula_def clamp_0_5_def Let_def max_def min_def)

lemma clamp_range: "0 \<le> clamp_0_5 x \<and> clamp_0_5 x \<le> 5"
  by (simp add: clamp_0_5_def)

lemma clamp_mono: "x \<le> y \<Longrightarrow> clamp_0_5 x \<le> clamp_0_5 y"
  by (simp add: clamp_0_5_def)

lemma calculate_rating_range: "0 \<le> calculate_rating b d l \<and> calculate_rating b d l \<le> 5"
proof -
  let ?c = "clamp_0_5 (rating_formula b d l)"
  have "py_round 0 2 \<le> py_round ?c 2" "py_round ?c 2 \<le> py_round 5 2"
    using clamp_range [of "rating_formula b d l"] by (simp_all add: py_round_mono)
  then show ?thesis
    by (simp add: calculate_rating_alt py_round_0 py_round_5)
qed

subsection \<open>Activity table and load score\<close>

lemma activity_table_keys: "hour \<in> fst ` set activity_table \<longleftrightarrow> 0 \<le> hour \<and> hour \<le> 23"
  unfolding activity_table_def by simp arith

lemma get_network_activity_defined:
  "(\<exists>a. get_network_activity hour = Inr a) \<longleftrightarrow> 0 \<le> hour \<and> hour \<le> 23"
  using activity_table_keys [of hour] map_of_eq_None_iff [of activity_table hour]
  by (auto simp: get_network_activity_def split: option.splits)

lemma get_network_activity_error:
  "get_network_activity hour = Inl e \<Longrightarrow> e = KeyError \<and> \<not> (0 \<le> hour \<and> hour \<le> 23)"
  using get_network_activity_defined [of hour]
  by (auto simp: get_network_activity_def split: option.splits)

lemma load_score_error:
  "load_score cloud_loads k = Inl e \<longleftrightarrow>
     e = KeyError \<and> total_load cloud_loads \<noteq> 0 \<and> k \<notin> fst ` set cloud_loads"
  using map_of_eq_None_iff [of cloud_loads k]
  by (auto simp: load_score_def split: option.splits)

lemma combined_score_weighted:
  "combined_score a (performance_score b d l) ls = weighted_score a b d l ls"
  by (simp add: combined_score_def performance_score_def weighted_score_def algebra_simps)

subsection \<open>The scan\<close>

lemma chosen_simps:
  "best_entity (chosen m dev s c) = Cloud c"
  "best_score (chosen m dev s c) = Score s"
  "best_rating (chosen m dev s c) = candidate_rating m dev c"
  by (simp_all add: chosen_def candidate_rating_def split: prod.splits)

lemma loop_body_candidate:
  "loop_body m dev cloud_loads a st c =
     (case candidate_score m dev cloud_loads a c of
        Inl e \<Rightarrow> Inl e
      | Inr s \<Rightarrow> Inr (if gt s (best_score st) then chosen m dev s c else st))"
  by (simp add: loop_body_def candidate_score_def chosen_def Let_def
           split: prod.splits sum.splits)

lemma candidate_score_error:
  "candidate_score m dev cloud_loads a c = Inl e \<longleftrightarrow>
     e = KeyError \<and> total_load cloud_loads \<noteq> 0 \<and> cloud_id c \<notin> fst ` set cloud_loads"
  using load_score_error [of cloud_loads "cloud_id c" e]
  by (auto simp: candidate_score_def split: prod.splits sum.splits)

text \<open>
  The score of a candidate, and the iteration of the loop, in the specification's weights.
\<close>

lemma candidate_score_weighted:
  assumes "m (device_id dev) (cloud_id c) = (b, d, l)"
  shows "candidate_score m dev cloud_loads a c =
     (case load_score cloud_loads (cloud_id c) of
        Inl e \<Rightarrow> Inl e
      | Inr ls \<Rightarrow> Inr (weighted_score a b d l ls))"
  using assms by (simp add: candidate_score_def combined_score_weighted split: sum.splits)

lemma loop_body_weighted:
  assumes "m (device_id dev) (cloud_id c) = (b, d, l)"
    and "load_score cloud_loads (cloud_id c) = Inr ls"
  shows "loop_body m dev cloud_loads a st c =
           Inr (if gt (weighted_score a b d l ls) (best_score st)
                then \<lparr>best_entity = Cloud c, best_score = Score (weighted_score a b d l ls),
                      best_rating = calculate_rating b d l, best_bandwidth = b,
                      best_delay = d, best_loss = l\<rparr>
                else st)"
  using assms
  by (simp add: loop_body_def combined_score_weighted Let_def)

lemma candidate_score_Inr_weighted:
  assumes "candidate_score m dev cloud_loads a c = Inr s"
  shows "\<exists>b d l ls. m (device_id dev) (cloud_id c) = (b, d, l)
           \<and> load_score cloud_loads (cloud_id c) = Inr ls
           \<and> s = weighted_score a b d l ls"
proof -
  obtain b d l where t: "m (device_id dev) (cloud_id c) = (b, d, l)"
    by (cases "m (device_id dev) (cloud_id c)")
  with assms obtain ls where "load_score cloud_loads (cloud_id c) = Inr ls"
    "s = weighted_score a b d l ls"
    by (auto simp: candidate_score_weighted split: sum.splits)
  with t show ?thesis by blast
qed

text \<open>
  A candidate whose score is not strictly greater than the running maximum leaves the
  state as it is.
\<close>

lemma scan_keeps:
  assumes "best_score st = Score s"
    and "\<forall>c\<in>set cs. \<exists>s'. candidate_score m dev cloud_loads a c = Inr s' \<and> s' \<le> s"
  shows "scan m dev cloud_loads a st cs = Inr st"
  using assms
proof (induction cs)
  case Nil
  then show ?case by simp
next
  case (Cons c cs)
  then obtain s' where "candidate_score m dev cloud_loads a c = Inr s'" "s' \<le> s"
    by auto
  with Cons.prems(1) have "loop_body m dev cloud_loads a st c = Inr st"
    by (simp add: loop_body_candidate)
  with Cons show ?case by simp
qed

lemma scan_first_kept:
  assumes "candidate_score m dev cloud_loads a c = Inr s"
    and "\<forall>c'\<in>set cs. \<exists>s'. candidate_score m dev cloud_loads a c' = Inr s' \<and> s' \<le> s"
  shows "scan m dev cloud_loads a initial_state (c # cs) = Inr (chosen m dev s c)"
proof -
  from assms(1) have "loop_body m dev cloud_loads a initial_state c = Inr (chosen m dev s c)"
    by (simp add: loop_body_candidate initial_state_def)
  moreover have "scan m dev cloud_loads a (chosen m dev s c) cs = Inr (chosen m dev s c)"
    using assms(2) by (intro scan_keeps [where s = s]) (simp_all add: chosen_simps)
  ultimately show ?thesis by simp
qed

lemma loop_body_is_best:
  assumes "is_best m dev cloud_loads a ps st"
    and "loop_body m dev cloud_loads a st c = Inr st'"
  shows "is_best m dev cloud_loads a (ps @ [c]) st'"
proof -
  from assms(1) obtain b s where b: "b \<in> set ps" "st = chosen m dev s b"
    "candidate_score m dev cloud_loads a b = Inr s"
    "\<forall>c'\<in>set ps. \<exists>s'. candidate_score m dev cloud_loads a c' = Inr s' \<and> s' \<le> s"
    unfolding is_best_def by blast
  from assms(2) obtain t where t: "candidate_score m dev cloud_loads a c = Inr t"
    "st' = (if gt t (best_score st) then chosen m dev t c else st)"
    by (auto simp: loop_body_candidate split: sum.splits)
  show ?thesis
  proof (cases "s < t")
    case True
    with t b(2) have "st' = chosen m dev t c" by (simp add: chosen_simps)
    moreover from True b(4) t(1)
    have "\<forall>c'\<in>set (ps @ [c]). \<exists>s'. candidate_score m dev cloud_loads a c' = Inr s' \<and> s' \<le> t"
      by fastforce
    moreover have "c \<in> set (ps @ [c])" by simp
    ultimately show ?thesis
      unfolding is_best_def using t(1) by blast
  next
    case False
    with t b(2) have "st' = chosen m dev s b" by (simp add: chosen_simps)
    moreover from False b(4) t(1)
    have "\<forall>c'\<in>set (ps @ [c]). \<exists>s'. candidate_score m dev cloud_loads a c' = Inr s' \<and> s' \<le> s"
      by fastforce
    moreover from b(1) have "b \<in> set (ps @ [c])" by simp
    ultimately show ?thesis
      unfolding is_best_def using b(3) by blast
  qed
qed

lemma loop_body_first:
  assumes "loop_body m dev cloud_loads a initial_state c = Inr st'"
  shows "is_best m dev cloud_loads a [c] st'"
  using assms
  by (auto simp: loop_body_candidate is_best_def initial_state_def split: sum.splits)

lemma scan_is_best:
  assumes "is_best m dev cloud_loads a ps st"
    and "scan m dev cloud_loads a st cs = Inr st'"
  shows "is_best m dev cloud_loads a (ps @ cs) st'"
  using assms
proof (induction cs arbitrary: st ps)
  case Nil
  then show ?case by simp
next
  case (Cons c cs)
  from Cons.prems(2) obtain st1 where st1: "loop_body m dev cloud_loads a st c = Inr st1"
    "scan m dev cloud_loads a st1 cs = Inr st'"
    by (auto split: sum.splits)
  from loop_body_is_best [OF Cons.prems(1) st1(1)]
  have "is_best m dev cloud_loads a (ps @ [c]) st1" .
  from Cons.IH [OF this st1(2)] show ?case by simp
qed

lemma scan_initial_is_best:
  assumes "cs \<noteq> []"
    and "scan m dev cloud_loads a initial_state cs = Inr st"
  shows "is_best m dev cloud_loads a cs st"
proof -
  from assms(1) obtain c cs' where cs: "cs = c # cs'" by (cases cs) auto
  with assms(2) obtain st1 where st1: "loop_body m dev cloud_loads a initial_state c = Inr st1"
    "scan m dev cloud_loads a st1 cs' = Inr st"
    by (auto split: sum.splits)
  from scan_is_best [OF loop_body_first [OF st1(1)] st1(2)] cs show ?thesis by simp
qed

text \<open>The scan raises only for a candidate whose id the load dictionary lacks.\<close>

lemma scan_error:
  "scan m dev cloud_loads a st cs = Inl e \<Longrightarrow>
     e = KeyError \<and> total_load cloud_loads \<noteq> 0 \<and> (\<exists>c\<in>set cs. cloud_id c \<notin> fst ` set cloud_loads)"
proof (induction cs arbitrary: st)
  case Nil
  then show ?case by simp
next
  case (Cons c cs)
  show ?case
  proof (cases "candidate_score m dev cloud_loads a c")
    case (Inl e')
    with Cons.prems have "e' = e" by (simp add: loop_body_candidate)
    with Inl show ?thesis by (simp add: candidate_score_error)
  next
    case (Inr s)
    with Cons.prems obtain st1 where "scan m dev cloud_loads a st1 cs = Inl e"
      by (auto simp: loop_body_candidate)
    from Cons.IH [OF this] show ?thesis by auto
  qed
qed

lemma scan_defined:
  assumes "total_load cloud_loads = 0 \<or> (\<forall>c\<in>set cs. cloud_id c \<in> fst ` set cloud_loads)"
  shows "\<exists>st'. scan m dev cloud_loads a st cs = Inr st'"
proof (cases "scan m dev cloud_loads a st cs")
  case (Inl e)
  from scan_error [OF this] assms show ?thesis by auto
next
  case (Inr st')
  then show ?thesis by blast
qed

subsection \<open>The engine\<close>

lemma select_best_cloud_Inr:
  "select_best_cloud m dev cs cloud_loads hour = Inr r \<longleftrightarrow>
     (\<exists>a st. get_network_activity hour = Inr a
        \<and> scan m dev cloud_loads a initial_state cs = Inr st \<and> r = finish dev st)"
  by (auto simp: select_best_cloud_def split: sum.splits)

lemma finish_chosen:
  "fst (finish dev (chosen m dev' s c)) =
     (if s < self_score dev \<and> candidate_rating m dev' c < 1 then Self else Cloud c)"
  by (simp add: finish_def chosen_simps Let_def)

lemma selection_self_or_candidate:
  assumes "select_best_cloud m dev cs cloud_loads hour = Inr r" and "cs \<noteq> []"
  shows "fst r = Self \<or> (\<exists>c\<in>set cs. fst r = Cloud c)"
proof -
  from assms(1) obtain a st where st: "scan m dev cloud_loads a initial_state cs = Inr st"
    and r: "r = finish dev st"
    by (auto simp: select_best_cloud_Inr)
  from scan_initial_is_best [OF assms(2) st]
  obtain c s where "c \<in> set cs" "st = chosen m dev s c"
    unfolding is_best_def by blast
  with r show ?thesis by (auto simp: finish_chosen)
qed

subsection \<open>The load counters\<close>

lemma counters_nondecreasing_refl: "counters_nondecreasing l l"
  by (simp add: counters_nondecreasing_def list_all2_same)

lemma counters_nondecreasing_trans:
  "counters_nondecreasing l1 l2 \<Longrightarrow> counters_nondecreasing l2 l3 \<Longrightarrow> counters_nondecreasing l1 l3"
  unfolding counters_nondecreasing_def
  by (auto elim: list_all2_trans [rotated])

lemma update_nondecreasing:
  "map_of l k = Some n \<Longrightarrow> n \<le> v \<Longrightarrow> counters_nondecreasing l (AList.update k v l)"
proof (induction l)
  case Nil
  then show ?case by simp
next
  case (Cons p l)
  then show ?case
    using counters_nondecreasing_refl [of l]
    by (cases p) (auto simp: counters_nondecreasing_def split: if_splits)
qed

lemma total_load_update:
  "distinct (map fst l) \<Longrightarrow> map_of l k = Some n \<Longrightarrow>
     total_load (AList.update k v l) + n = total_load l + v"
proof (induction l)
  case Nil
  then show ?case by simp
next
  case (Cons p l)
  obtain k' n' where p: "p = (k', n')" by (cases p)
  show ?case
  proof (cases "k' = k")
    case True
    with Cons.prems p show ?thesis by (simp add: total_load_def)
  next
    case False
    with Cons.prems p have "total_load (AList.update k v l) + n = total_load l + v"
      by (intro Cons.IH) simp_all
    with False p show ?thesis by (simp add: total_load_def)
  qed
qed

lemma increment_Inr:
  "increment cloud_loads k = Inr cloud_loads' \<longleftrightarrow>
     (\<exists>n. map_of cloud_loads k = Some n \<and> cloud_loads' = AList.update k (n + 1) cloud_loads)"
  by (auto simp: increment_def split: option.splits)

lemma device_step_Inr:
  "device_step m cs hour cloud_loads dev = Inr cloud_loads' \<longleftrightarrow>
     (\<exists>r. select_best_cloud m dev cs cloud_loads hour = Inr r
        \<and> (fst r = Self \<and> cloud_loads' = cloud_loads
           \<or> (\<exists>c n. fst r = Cloud c \<and> map_of cloud_loads (cloud_id c) = Some n
                 \<and> cloud_loads' = AList.update (cloud_id c) (n + 1) cloud_loads)))"
  by (auto simp: device_step_def increment_Inr split: sum.splits prod.splits entity.splits)

lemma device_step_nondecreasing:
  "device_step m cs hour cloud_loads dev = Inr cloud_loads' \<Longrightarrow>
     counters_nondecreasing cloud_loads cloud_loads'"
  by (auto simp: device_step_Inr counters_nondecreasing_refl intro: update_nondecreasing)

lemma run_devices_nondecreasing:
  "counters_nondecreasing cloud_loads (fst (run_devices m cs hour cloud_loads devs))"
proof (induction devs arbitrary: cloud_loads)
  case Nil
  then show ?case by (simp add: counters_nondecreasing_refl)
next
  case (Cons dev devs)
  show ?case
  proof (cases "device_step m cs hour cloud_loads dev")
    case (Inl e)
    then show ?thesis by (simp add: counters_nondecreasing_refl)
  next
    case (Inr l')
    with Cons.IH [of l'] device_step_nondecreasing [OF Inr] show ?thesis
      by (auto intro: counters_nondecreasing_trans)
  qed
qed

lemma run_cycles_nondecreasing:
  "counters_nondecreasing cloud_loads (fst (run_cycles cs devs cloud_loads cycles))"
proof (induction cycles arbitrary: cloud_loads)
  case Nil
  then show ?case by (simp add: counters_nondecreasing_refl)
next
  case (Cons cyc cycles)
  obtain hour m where cyc: "cyc = (hour, m)" by (cases cyc)
  obtain l' eo where r: "run_devices m cs hour cloud_loads devs = (l', eo)"
    by (cases "run_devices m cs hour cloud_loads devs")
  from run_devices_nondecreasing [of cloud_loads m cs hour devs] r
  have 1: "counters_nondecreasing cloud_loads l'" by simp
  show ?case
  proof (cases eo)
    case None
    with cyc r Cons.IH [of l'] 1 show ?thesis
      by (auto intro: counters_nondecreasing_trans)
  next
    case (Some e)
    with cyc r 1 show ?thesis by simp
  qed
qed

lemma initial_loads_zero_aux:
  "\<forall>p\<in>set acc. snd p = 0 \<Longrightarrow>
     \<forall>p\<in>set (foldl (\<lambda>acc c. AList.update (cloud_id c) 0 acc) acc cs). snd p = 0"
proof (induction cs arbitrary: acc)
  case Nil
  then show ?case by simp
next
  case (Cons c cs)
  have "\<forall>p\<in>set (AList.update (cloud_id c) 0 acc). snd p = 0"
    using Cons.prems by (induction acc) auto
  from Cons.IH [OF this] show ?case by simp
qed

lemma initial_loads_keys_aux:
  "fst ` set (foldl (\<lambda>acc c. AList.update (cloud_id c) (0::nat) acc) acc cs)
     = fst ` set acc \<union> cloud_id ` set cs"
proof (induction cs arbitrary: acc)
  case Nil
  then show ?case by simp
next
  case (Cons c cs)
  have "fst ` set (AList.update (cloud_id c) (0::nat) acc) = insert (cloud_id c) (fst ` set acc)"
    using AList.dom_update [of "cloud_id c" "0::nat" acc] by (simp add: dom_map_of_conv_image_fst)
  with Cons.IH [of "AList.update (cloud_id c) 0 acc"] show ?case by auto
qed

lemma initial_loads_zero: "\<forall>p\<in>set (initial_loads cs). snd p = 0"
  unfolding initial_loads_def by (rule initial_loads_zero_aux) simp

lemma initial_loads_keys: "fst ` set (initial_loads cs) = cloud_id ` set cs"
  unfolding initial_loads_def using initial_loads_keys_aux [of "[]" cs] by simp

subsection \<open>Unfolding the engine on concrete inputs\<close>

lemmas engine_defs =
  select_best_cloud_def get_network_activity_def activity_table_def loop_body_def
  load_score_def total_load_def combined_score_def performance_score_def
  calculate_rating_def py_round_def round_half_even_def initial_state_def
  finish_def self_score_def candidate_score_def candidate_rating_def

lemmas example_defs =
  example_device_def example_cloud_def poor_probe_def good_probe_def mixed_probe_def
  uneven_probe_def

section \<open>The properties\<close>

subsection \<open>C1: self-processing stands behind a double gate\<close>

text \<open>
  C1. Whenever \<^verbatim>\<open>select_best_cloud\<close> returns for a non-empty candidate list, there is
  a best cloud \<open>c\<close>: a candidate whose combined score \<open>s\<close> no candidate exceeds, and
  whose rating is the one the engine tested. The result is \<^verbatim>\<open>'self'\<close> exactly when
  \<open>self_processing_power - cpu * 0.2\<close> is strictly greater than \<open>s\<close> and the rating
  of \<open>c\<close> is strictly below 1; otherwise the result is \<open>c\<close>. So when the best
  cloud's rating is 1 or more, the result is that cloud whatever the self score is.
\<close>

theorem self_only_behind_double_gate:
  assumes "select_best_cloud m dev cs cloud_loads hour = Inr r" and "cs \<noteq> []"
  shows "\<exists>a. get_network_activity hour = Inr a \<and>
     (\<exists>c\<in>set cs. \<exists>s. candidate_score m dev cloud_loads a c = Inr s
        \<and> (\<forall>c'\<in>set cs. \<exists>s'. candidate_score m dev cloud_loads a c' = Inr s' \<and> s' \<le> s)
        \<and> (fst r = Self \<longleftrightarrow>
              s < self_processing_power dev - cpu dev * 0.2 \<and> candidate_rating m dev c < 1)
        \<and> (fst r \<noteq> Self \<longrightarrow> fst r = Cloud c)
        \<and> (1 \<le> candidate_rating m dev c \<longrightarrow> fst r = Cloud c))"
proof -
  from assms(1) obtain a st where a: "get_network_activity hour = Inr a"
    and st: "scan m dev cloud_loads a initial_state cs = Inr st" and r: "r = finish dev st"
    by (auto simp: select_best_cloud_Inr)
  from scan_initial_is_best [OF assms(2) st]
  obtain c s where c: "c \<in> set cs" "st = chosen m dev s c"
    "candidate_score m dev cloud_loads a c = Inr s"
    "\<forall>c'\<in>set cs. \<exists>s'. candidate_score m dev cloud_loads a c' = Inr s' \<and> s' \<le> s"
    unfolding is_best_def by blast
  from r c(2) have "fst r =
      (if s < self_score dev \<and> candidate_rating m dev c < 1 then Self else Cloud c)"
    by (simp add: finish_chosen)
  then have "(fst r = Self \<longleftrightarrow>
              s < self_processing_power dev - cpu dev * 0.2 \<and> candidate_rating m dev c < 1)
        \<and> (fst r \<noteq> Self \<longrightarrow> fst r = Cloud c)
        \<and> (1 \<le> candidate_rating m dev c \<longrightarrow> fst r = Cloud c)"
    by (simp add: self_score_def)
  with a c(1,3,4) show ?thesis by blast
qed

text \<open>
  On the poor network both gates are open: every cloud scores -4.6 and rates 0.8, the
  device's self score is 0.28, and the engine answers \<^verbatim>\<open>'self'\<close>.
\<close>

theorem self_only_behind_double_gate_witness:
  "select_best_cloud poor_probe example_device [example_cloud 1, example_cloud 2]
       [(1, 0), (2, 0)] 0 = Inr (Self, 50, 10, 1, 4.28)
   \<and> [example_cloud 1, example_cloud 2] \<noteq> []
   \<and> (\<exists>a. get_network_activity 0 = Inr a \<and>
        (\<exists>c\<in>set [example_cloud 1, example_cloud 2]. \<exists>s.
            candidate_score poor_probe example_device [(1, 0), (2, 0)] a c = Inr s
          \<and> s < self_processing_power example_device - cpu example_device * 0.2
          \<and> candidate_rating poor_probe example_device c < 1))"
proof -
  have h: "select_best_cloud poor_probe example_device [example_cloud 1, example_cloud 2]
       [(1, 0), (2, 0)] 0 = Inr (Self, 50, 10, 1, 4.28)"
    by (simp add: engine_defs example_defs)
  have ne: "[example_cloud 1, example_cloud 2] \<noteq> []" by simp
  from self_only_behind_double_gate [OF h ne] h ne show ?thesis
    by (simp only: fst_conv simp_thms) blast
qed

text \<open>
  The rating that gates is the rating of the best-scoring cloud only. On the mixed
  network cloud 2 rates 2.7, but cloud 1, rated 0.9, has the higher score, and the
  engine answers \<^verbatim>\<open>'self'\<close>.
\<close>

lemma self_beside_a_better_rated_cloud:
  "candidate_rating mixed_probe example_device (example_cloud 2) = 2.7
   \<and> candidate_rating mixed_probe example_device (example_cloud 1) = 0.9
   \<and> select_best_cloud mixed_probe example_device [example_cloud 1, example_cloud 2]
       [(1, 0), (2, 0)] 0 = Inr (Self, 50, 10, 1, 4.28)"
  by (simp add: engine_defs example_defs)

subsection \<open>C2: an empty candidate list\<close>

text \<open>
  C2 says that an empty candidate list makes the engine fail with an invalid-input
  condition and never return \<^verbatim>\<open>'self'\<close>. The code has no such check: with no
  candidate the running maximum stays at minus infinity and the best rating at 0, both
  gates are open, and the engine returns \<^verbatim>\<open>'self'\<close>.
\<close>

theorem empty_candidates_counterexample:
  "select_best_cloud good_probe example_device [] [] 0 = Inr (Self, 50, 10, 1, 4.28)"
  by (simp add: engine_defs example_defs)

text \<open>
  C2, amended. For an hour from 0 to 23 and an empty candidate list the engine raises
  nothing and returns \<^verbatim>\<open>'self'\<close> with the device's own bandwidth, delay and loss and
  the rating of that triple, whatever the load dictionary holds.
\<close>

theorem empty_candidates_return_self:
  assumes "0 \<le> hour" and "hour \<le> 23"
  shows "select_best_cloud m dev [] cloud_loads hour =
     Inr (Self, bandwidth dev, delay dev, loss dev,
          calculate_rating (bandwidth dev) (delay dev) (loss dev))"
proof -
  from assms obtain a where "get_network_activity hour = Inr a"
    using get_network_activity_defined [of hour] by blast
  then show ?thesis
    by (simp add: select_best_cloud_def finish_def initial_state_def Let_def)
qed

theorem empty_candidates_return_self_witness:
  "(0::int) \<le> 8 \<and> (8::int) \<le> 23
   \<and> select_best_cloud good_probe example_device [] [(1, 0), (2, 5)] 8 =
       Inr (Self, 50, 10, 1, 4.28)"
  using empty_candidates_return_self [of 8 good_probe example_device "[(1, 0), (2, 5)]"]
  by (simp add: example_device_def calculate_rating_def py_round_def round_half_even_def)

subsection \<open>C3: the rating formula\<close>

text \<open>
  C3. For every triple, \<^verbatim>\<open>calculate_rating\<close> is the value
  \<open>5 * (0.2 * bandwidth/100 + 0.4 * (1 - delay/100) + 0.4 * (1 - loss/100))\<close>, clamped
  to the interval from 0 to 5 and rounded to two decimal places, and it lies between 0
  and 5.
\<close>

theorem rating_formula_clamped_rounded:
  "rounded_to_2_places (calculate_rating b d l) (clamp_0_5 (rating_formula b d l))
   \<and> 0 \<le> calculate_rating b d l \<and> calculate_rating b d l \<le> 5"
proof -
  let ?c = "clamp_0_5 (rating_formula b d l)"
  have "of_int \<lfloor>py_round ?c 2 * 100\<rfloor> = py_round ?c 2 * 100"
    using py_round_grid [of ?c 2] by simp
  moreover have "\<bar>py_round ?c 2 - ?c\<bar> \<le> 1 / 200"
    using py_round_close [of ?c 2] by simp
  ultimately show ?thesis
    using calculate_rating_range [of b d l]
    by (simp add: rounded_to_2_places_def calculate_rating_alt)
qed

subsection \<open>C4: ties keep the earlier candidate\<close>

text \<open>
  C4 says that with identical combined scores \<^verbatim>\<open>select_best_cloud\<close> returns the first
  candidate, for every device. It does not when the self gate is open: on the poor
  network both clouds score -4.6 and rate 0.8, and the answer is \<^verbatim>\<open>'self'\<close>, not
  cloud 1.
\<close>

theorem tie_self_counterexample:
  "candidate_score poor_probe example_device [(1, 0), (2, 0)] 0.2 (example_cloud 1)
     = candidate_score poor_probe example_device [(1, 0), (2, 0)] 0.2 (example_cloud 2)
   \<and> get_network_activity 0 = Inr 0.2
   \<and> select_best_cloud poor_probe example_device [example_cloud 1, example_cloud 2]
       [(1, 0), (2, 0)] 0 = Inr (Self, 50, 10, 1, 4.28)"
  by (simp add: engine_defs example_defs)

text \<open>
  C4, amended. If no later candidate's combined score is strictly greater than the
  first candidate's score \<open>s\<close> (in particular when all scores are identical), the scan
  ends with the first candidate as its best, and \<^verbatim>\<open>select_best_cloud\<close> returns the
  first candidate with its measured triple and rating, unless the self gate is open
  (the self score strictly above \<open>s\<close> and the first candidate's rating strictly below
  1), in which case it returns \<^verbatim>\<open>'self'\<close>.
\<close>

theorem tie_keeps_first_candidate:
  assumes "get_network_activity hour = Inr a"
    and "m (device_id dev) (cloud_id c) = (b, d, l)"
    and "candidate_score m dev cloud_loads a c = Inr s"
    and "\<forall>c'\<in>set cs. \<exists>s'. candidate_score m dev cloud_loads a c' = Inr s' \<and> s' \<le> s"
  shows "(\<exists>st. scan m dev cloud_loads a initial_state (c # cs) = Inr st
            \<and> best_entity st = Cloud c \<and> best_score st = Score s)
     \<and> select_best_cloud m dev (c # cs) cloud_loads hour =
         Inr (if s < self_score dev \<and> calculate_rating b d l < 1
              then (Self, bandwidth dev, delay dev, loss dev,
                    calculate_rating (bandwidth dev) (delay dev) (loss dev))
              else (Cloud c, b, d, l, calculate_rating b d l))"
proof -
  have st: "scan m dev cloud_loads a initial_state (c # cs) = Inr (chosen m dev s c)"
    using assms(3,4) by (rule scan_first_kept)
  have "finish dev (chosen m dev s c) =
      (if s < self_score dev \<and> calculate_rating b d l < 1
       then (Self, bandwidth dev, delay dev, loss dev,
             calculate_rating (bandwidth dev) (delay dev) (loss dev))
       else (Cloud c, b, d, l, calculate_rating b d l))"
    using assms(2) by (simp add: finish_def chosen_def Let_def)
  with st assms(1) have "select_best_cloud m dev (c # cs) cloud_loads hour =
         Inr (if s < self_score dev \<and> calculate_rating b d l < 1
              then (Self, bandwidth dev, delay dev, loss dev,
                    calculate_rating (bandwidth dev) (delay dev) (loss dev))
              else (Cloud c, b, d, l, calculate_rating b d l))"
    by (simp add: select_best_cloud_def)
  moreover from st have "\<exists>st. scan m dev cloud_loads a initial_state (c # cs) = Inr st
            \<and> best_entity st = Cloud c \<and> best_score st = Score s"
    by (simp add: chosen_simps)
  ultimately show ?thesis by blast
qed

text \<open>
  On the good network, in a busy hour and with no load recorded, both clouds score 2.56
  and rate 5: the first of them is returned.
\<close>

theorem tie_keeps_first_candidate_witness:
  "get_network_activity 9 = Inr 0.9
   \<and> good_probe (device_id example_device) (cloud_id (example_cloud 1)) = (500, 10, 0)
   \<and> candidate_score good_probe example_device [] 0.9 (example_cloud 1) = Inr 2.56
   \<and> candidate_score good_probe example_device [] 0.9 (example_cloud 2) = Inr 2.56
   \<and> select_best_cloud good_probe example_device [example_cloud 1, example_cloud 2] [] 9
       = Inr (Cloud (example_cloud 1), 500, 10, 0, 5)"
proof -
  have a: "get_network_activity 9 = Inr 0.9"
    by (simp add: get_network_activity_def activity_table_def)
  have p: "good_probe (device_id example_device) (cloud_id (example_cloud 1)) = (500, 10, 0)"
    by (simp add: good_probe_def)
  have s1: "candidate_score good_probe example_device [] 0.9 (example_cloud 1) = Inr 2.56"
    by (simp add: engine_defs example_defs)
  have s2: "candidate_score good_probe example_device [] 0.9 (example_cloud 2) = Inr 2.56"
    by (simp add: engine_defs example_defs)
  have rest: "\<forall>c'\<in>set [example_cloud 2]. \<exists>s'.
      candidate_score good_probe example_device [] 0.9 c' = Inr s' \<and> s' \<le> 2.56"
  proof
    fix c'
    assume "c' \<in> set [example_cloud 2]"
    with s2 have "candidate_score good_probe example_device [] 0.9 c' = Inr 2.56
        \<and> (2.56::real) \<le> 2.56"
      by simp
    then show "\<exists>s'. candidate_score good_probe example_device [] 0.9 c' = Inr s' \<and> s' \<le> 2.56" ..
  qed
  have r: "calculate_rating 500 10 0 = 5"
    by (simp add: calculate_rating_def py_round_def round_half_even_def)
  from tie_keeps_first_candidate [OF a p s1 rest] r a p s1 s2 show ?thesis
    by (simp add: self_score_def example_device_def)
qed

subsection \<open>C5: the load score\<close>

text \<open>
  C5. The load score of a cloud is 1 when the total load is zero, and otherwise 1 minus
  the cloud's own counter divided by the total. So between two load states with the
  same non-zero total, the cloud's load score is strictly smaller in the one where its
  own counter is larger.
\<close>

theorem load_score_formula_and_feedback:
  "(total_load cloud_loads = 0 \<longrightarrow> load_score cloud_loads k = Inr 1)
   \<and> (total_load cloud_loads \<noteq> 0 \<longrightarrow> map_of cloud_loads k = Some n \<longrightarrow>
        load_score cloud_loads k = Inr (1 - real n / real (total_load cloud_loads)))
   \<and> (total_load cloud_loads \<noteq> 0 \<longrightarrow> total_load cloud_loads' = total_load cloud_loads \<longrightarrow>
        map_of cloud_loads k = Some n \<longrightarrow> map_of cloud_loads' k = Some n' \<longrightarrow> n < n' \<longrightarrow>
        (\<exists>x x'. load_score cloud_loads k = Inr x \<and> load_score cloud_loads' k = Inr x' \<and> x' < x))"
  by (simp add: load_score_def divide_strict_right_mono)

text \<open>
  With no load the score is 1; with a total of 3, raising cloud 1's counter from 1 to 2
  lowers its score from 2/3 to 1/3.
\<close>

theorem load_score_formula_and_feedback_witness:
  "total_load [(1, 0), (2, 0)] = 0 \<and> load_score [(1, 0), (2, 0)] 1 = Inr 1
   \<and> total_load [(1, 1), (2, 2)] \<noteq> 0 \<and> total_load [(1, 2), (2, 1)] = total_load [(1, 1), (2, 2)]
   \<and> map_of [(1, 1), (2, 2::nat)] (1::int) = Some 1 \<and> map_of [(1, 2), (2, 1::nat)] (1::int) = Some 2
   \<and> load_score [(1, 1), (2, 2)] 1 = Inr (2 / 3) \<and> load_score [(1, 2), (2, 1)] 1 = Inr (1 / 3)"
  using load_score_formula_and_feedback [of "[(1, 0), (2, 0)]" 1 0 "[(1, 0), (2, 0)]" 0]
    load_score_formula_and_feedback [of "[(1, 1), (2, 2)]" 1 1 "[(1, 2), (2, 1)]" 2]
  by (simp add: total_load_def load_score_def)

text \<open>
  The simulation loop never holds the total fixed: its increment raises the counter and
  the total together. Then the load score of the incremented cloud still strictly
  decreases as long as some other cloud holds load; a cloud that holds the whole load
  has load score 0 before and after.
\<close>

lemma load_score_after_increment:
  assumes "distinct (map fst cloud_loads)" and "map_of cloud_loads k = Some n"
    and "n < total_load cloud_loads"
  shows "\<exists>x x'. load_score cloud_loads k = Inr x
           \<and> load_score (AList.update k (n + 1) cloud_loads) k = Inr x' \<and> x' < x"
proof -
  let ?T = "total_load cloud_loads"
  have T': "total_load (AList.update k (n + 1) cloud_loads) = ?T + 1"
    using total_load_update [OF assms(1,2), of "n + 1"] by simp
  have k': "map_of (AList.update k (n + 1) cloud_loads) k = Some (n + 1)"
    by (simp add: update_conv')
  from assms(3) have "real n * (real ?T + 1) < (real n + 1) * real ?T"
    by (simp add: algebra_simps)
  with assms(3) have "real n / real ?T < (1 + real n) / (1 + real ?T)"
    by (simp add: field_simps)
  with assms(2,3) T' k' show ?thesis
    by (simp add: load_score_def)
qed

lemma load_score_of_sole_holder:
  "load_score [(1, 5), (2, 0)] 1 = Inr 0
   \<and> AList.update 1 (5 + 1) [(1, 5), (2, 0::nat)] = [(1::int, 6), (2, 0)]
   \<and> load_score [(1, 6), (2, 0)] 1 = Inr 0"
  by (simp add: load_score_def total_load_def)

subsection \<open>C6: the rating is monotone\<close>

text \<open>
  C6. With the other two inputs fixed, \<^verbatim>\<open>calculate_rating\<close> does not decrease when
  the bandwidth grows, and does not increase when the delay or the loss grows.
\<close>

theorem rating_monotone:
  "(b \<le> b' \<longrightarrow> calculate_rating b d l \<le> calculate_rating b' d l)
   \<and> (d \<le> d' \<longrightarrow> calculate_rating b d' l \<le> calculate_rating b d l)
   \<and> (l \<le> l' \<longrightarrow> calculate_rating b d l' \<le> calculate_rating b d l)"
proof -
  have "rating_formula b d l \<le> rating_formula b' d l" if "b \<le> b'"
    using that by (simp add: rating_formula_def)
  moreover have "rating_formula b d' l \<le> rating_formula b d l" if "d \<le> d'"
    using that by (simp add: rating_formula_def)
  moreover have "rating_formula b d l' \<le> rating_formula b d l" if "l \<le> l'"
    using that by (simp add: rating_formula_def)
  ultimately show ?thesis
    by (simp add: calculate_rating_alt py_round_mono clamp_mono)
qed

theorem rating_monotone_witness:
  "(10::real) \<le> 20 \<and> calculate_rating 10 50 5 \<le> calculate_rating 20 50 5
   \<and> (50::real) \<le> 60 \<and> calculate_rating 10 60 5 \<le> calculate_rating 10 50 5
   \<and> (5::real) \<le> 7 \<and> calculate_rating 10 50 7 \<le> calculate_rating 10 50 5"
  using rating_monotone [of 10 20 50 5 60 7] by simp

subsection \<open>C7: the combined score\<close>

text \<open>
  C7. Whenever \<^verbatim>\<open>select_best_cloud\<close> returns for a non-empty candidate list at hour
  \<open>hour\<close>, the activity it weights with is \<open>a = get_network_activity hour\<close>, and for
  every candidate, with measured triple (b, d, l) and load score \<open>ls\<close>, the combined
  score of that call is \<open>0.4 * p + 0.6 * ls\<close> when \<open>a\<close> is strictly greater than 0.7
  and \<open>0.7 * p + 0.3 * ls\<close> otherwise, where \<open>p = b/100 - d/100 - l/10\<close>. These are
  the scores the engine decides by: its scan ends in the state of a candidate whose
  weighted score is stored as the best score and is exceeded by no candidate's, and the
  result is \<^verbatim>\<open>'self'\<close> or that candidate with its triple and rating.
\<close>

theorem combined_score_weights:
  assumes "select_best_cloud m dev cs cloud_loads hour = Inr r" and "cs \<noteq> []"
  shows "\<exists>a. get_network_activity hour = Inr a
     \<and> (\<forall>c\<in>set cs. \<exists>b d l ls. m (device_id dev) (cloud_id c) = (b, d, l)
            \<and> load_score cloud_loads (cloud_id c) = Inr ls
            \<and> candidate_score m dev cloud_loads a c = Inr (weighted_score a b d l ls)
            \<and> (\<forall>st. loop_body m dev cloud_loads a st c =
                   Inr (if gt (weighted_score a b d l ls) (best_score st)
                        then \<lparr>best_entity = Cloud c,
                              best_score = Score (weighted_score a b d l ls),
                              best_rating = calculate_rating b d l, best_bandwidth = b,
                              best_delay = d, best_loss = l\<rparr>
                        else st)))
     \<and> (\<exists>c\<in>set cs. \<exists>b d l ls. m (device_id dev) (cloud_id c) = (b, d, l)
            \<and> load_score cloud_loads (cloud_id c) = Inr ls
            \<and> scan m dev cloud_loads a initial_state cs =
                 Inr \<lparr>best_entity = Cloud c, best_score = Score (weighted_score a b d l ls),
                      best_rating = calculate_rating b d l, best_bandwidth = b,
                      best_delay = d, best_loss = l\<rparr>
            \<and> (\<forall>c'\<in>set cs. \<exists>s'. candidate_score m dev cloud_loads a c' = Inr s'
                   \<and> s' \<le> weighted_score a b d l ls)
            \<and> (fst r = Self \<or> r = (Cloud c, b, d, l, calculate_rating b d l)))"
proof -
  from assms(1) obtain a st where a: "get_network_activity hour = Inr a"
    and st: "scan m dev cloud_loads a initial_state cs = Inr st" and r: "r = finish dev st"
    by (auto simp: select_best_cloud_Inr)
  from scan_initial_is_best [OF assms(2) st]
  obtain c s where c: "c \<in> set cs" "st = chosen m dev s c"
    "candidate_score m dev cloud_loads a c = Inr s"
    and le: "\<forall>c'\<in>set cs. \<exists>s'. candidate_score m dev cloud_loads a c' = Inr s' \<and> s' \<le> s"
    unfolding is_best_def by blast
  have each: "\<forall>c\<in>set cs. \<exists>b d l ls. m (device_id dev) (cloud_id c) = (b, d, l)
            \<and> load_score cloud_loads (cloud_id c) = Inr ls
            \<and> candidate_score m dev cloud_loads a c = Inr (weighted_score a b d l ls)
            \<and> (\<forall>st. loop_body m dev cloud_loads a st c =
                   Inr (if gt (weighted_score a b d l ls) (best_score st)
                        then \<lparr>best_entity = Cloud c,
                              best_score = Score (weighted_score a b d l ls),
                              best_rating = calculate_rating b d l, best_bandwidth = b,
                              best_delay = d, best_loss = l\<rparr>
                        else st))"
  proof
    fix c'
    assume "c' \<in> set cs"
    with le obtain s' where s': "candidate_score m dev cloud_loads a c' = Inr s'" by blast
    from candidate_score_Inr_weighted [OF s'] obtain b d l ls
      where t: "m (device_id dev) (cloud_id c') = (b, d, l)"
        and ls: "load_score cloud_loads (cloud_id c') = Inr ls"
        and w: "s' = weighted_score a b d l ls"
      by blast
    note lb = loop_body_weighted [where m = m and dev = dev and c = c' and b = b and d = d
        and l = l and ls = ls and cloud_loads = cloud_loads and a = a]
    from s' w lb t ls
    show "\<exists>b d l ls. m (device_id dev) (cloud_id c') = (b, d, l)
            \<and> load_score cloud_loads (cloud_id c') = Inr ls
            \<and> candidate_score m dev cloud_loads a c' = Inr (weighted_score a b d l ls)
            \<and> (\<forall>st. loop_body m dev cloud_loads a st c' =
                   Inr (if gt (weighted_score a b d l ls) (best_score st)
                        then \<lparr>best_entity = Cloud c',
                              best_score = Score (weighted_score a b d l ls),
                              best_rating = calculate_rating b d l, best_bandwidth = b,
                              best_delay = d, best_loss = l\<rparr>
                        else st))"
      by blast
  qed
  from candidate_score_Inr_weighted [OF c(3)] obtain b d l ls
    where t: "m (device_id dev) (cloud_id c) = (b, d, l)"
      and ls: "load_score cloud_loads (cloud_id c) = Inr ls"
      and w: "s = weighted_score a b d l ls"
    by blast
  from t w have ch: "chosen m dev s c =
      \<lparr>best_entity = Cloud c, best_score = Score (weighted_score a b d l ls),
       best_rating = calculate_rating b d l, best_bandwidth = b,
       best_delay = d, best_loss = l\<rparr>"
    by (simp add: chosen_def)
  from r c(2) ch have res: "fst r = Self \<or> r = (Cloud c, b, d, l, calculate_rating b d l)"
    by (simp add: finish_def Let_def)
  from st c(2) ch have sc: "scan m dev cloud_loads a initial_state cs =
      Inr \<lparr>best_entity = Cloud c, best_score = Score (weighted_score a b d l ls),
           best_rating = calculate_rating b d l, best_bandwidth = b,
           best_delay = d, best_loss = l\<rparr>"
    by simp
  from le w have le': "\<forall>c'\<in>set cs. \<exists>s'. candidate_score m dev cloud_loads a c' = Inr s'
      \<and> s' \<le> weighted_score a b d l ls"
    by simp
  from c(1) t ls sc le' res
  have "\<exists>c\<in>set cs. \<exists>b d l ls. m (device_id dev) (cloud_id c) = (b, d, l)
            \<and> load_score cloud_loads (cloud_id c) = Inr ls
            \<and> scan m dev cloud_loads a initial_state cs =
                 Inr \<lparr>best_entity = Cloud c, best_score = Score (weighted_score a b d l ls),
                      best_rating = calculate_rating b d l, best_bandwidth = b,
                      best_delay = d, best_loss = l\<rparr>
            \<and> (\<forall>c'\<in>set cs. \<exists>s'. candidate_score m dev cloud_loads a c' = Inr s'
                   \<and> s' \<le> weighted_score a b d l ls)
            \<and> (fst r = Self \<or> r = (Cloud c, b, d, l, calculate_rating b d l))"
    by blast
  with a each show ?thesis by blast
qed

text \<open>
  Cloud 1 has the faster link and all the load. Hour 12 has activity 0.8 and takes the
  busy weights: cloud 1 scores 1.96, cloud 2 scores 2.16 and wins. Hour 13 has activity
  exactly 0.7 and takes the idle weights: cloud 1 scores 3.43 and wins over the 3.03 of
  cloud 2.
\<close>

theorem combined_score_weights_witness:
  "[example_cloud 1, example_cloud 2] \<noteq> []
   \<and> get_network_activity 12 = Inr 0.8
   \<and> candidate_score uneven_probe example_device [(1, 3), (2, 0)] 0.8 (example_cloud 1) = Inr 1.96
   \<and> candidate_score uneven_probe example_device [(1, 3), (2, 0)] 0.8 (example_cloud 2) = Inr 2.16
   \<and> select_best_cloud uneven_probe example_device [example_cloud 1, example_cloud 2]
       [(1, 3), (2, 0)] 12 = Inr (Cloud (example_cloud 2), 400, 10, 0, 5)
   \<and> get_network_activity 13 = Inr 0.7
   \<and> candidate_score uneven_probe example_device [(1, 3), (2, 0)] 0.7 (example_cloud 1) = Inr 3.43
   \<and> candidate_score uneven_probe example_device [(1, 3), (2, 0)] 0.7 (example_cloud 2) = Inr 3.03
   \<and> select_best_cloud uneven_probe example_device [example_cloud 1, example_cloud 2]
       [(1, 3), (2, 0)] 13 = Inr (Cloud (example_cloud 1), 500, 10, 0, 5)
   \<and> (\<exists>c\<in>set [example_cloud 1, example_cloud 2]. \<exists>b d l ls.
          uneven_probe (device_id example_device) (cloud_id c) = (b, d, l)
        \<and> load_score [(1, 3), (2, 0)] (cloud_id c) = Inr ls
        \<and> candidate_score uneven_probe example_device [(1, 3), (2, 0)] 0.8 c
            = Inr (weighted_score 0.8 b d l ls))
   \<and> (\<exists>c\<in>set [example_cloud 1, example_cloud 2]. \<exists>b d l ls.
          uneven_probe (device_id example_device) (cloud_id c) = (b, d, l)
        \<and> load_score [(1, 3), (2, 0)] (cloud_id c) = Inr ls
        \<and> candidate_score uneven_probe example_device [(1, 3), (2, 0)] 0.7 c
            = Inr (weighted_score 0.7 b d l ls))"
proof -
  let ?cs = "[example_cloud 1, example_cloud 2]"
  let ?l = "[(1, 3), (2, 0)] :: loads"
  have ne: "?cs \<noteq> []" by simp
  have a12: "get_network_activity 12 = Inr 0.8" and a13: "get_network_activity 13 = Inr 0.7"
    by (simp_all add: get_network_activity_def activity_table_def)
  have c1: "candidate_score uneven_probe example_device ?l 0.8 (example_cloud 1) = Inr 1.96"
    and c2: "candidate_score uneven_probe example_device ?l 0.8 (example_cloud 2) = Inr 2.16"
    and c3: "candidate_score uneven_probe example_device ?l 0.7 (example_cloud 1) = Inr 3.43"
    and c4: "candidate_score uneven_probe example_device ?l 0.7 (example_cloud 2) = Inr 3.03"
    by (simp_all add: engine_defs example_defs)
  have s12: "select_best_cloud uneven_probe example_device ?cs ?l 12
      = Inr (Cloud (example_cloud 2), 400, 10, 0, 5)"
    by (simp add: engine_defs example_defs)
  have s13: "select_best_cloud uneven_probe example_device ?cs ?l 13
      = Inr (Cloud (example_cloud 1), 500, 10, 0, 5)"
    by (simp add: engine_defs example_defs)
  from combined_score_weights [OF s12 ne] obtain a
    where a: "get_network_activity 12 = Inr a"
      and each: "\<forall>c\<in>set ?cs. \<exists>b d l ls.
          uneven_probe (device_id example_device) (cloud_id c) = (b, d, l)
        \<and> load_score ?l (cloud_id c) = Inr ls
        \<and> candidate_score uneven_probe example_device ?l a c = Inr (weighted_score a b d l ls)"
    by (elim exE conjE) (rule that, assumption, blast)
  from a a12 have "a = 0.8" by simp
  with each have busy: "\<exists>c\<in>set ?cs. \<exists>b d l ls.
          uneven_probe (device_id example_device) (cloud_id c) = (b, d, l)
        \<and> load_score ?l (cloud_id c) = Inr ls
        \<and> candidate_score uneven_probe example_device ?l 0.8 c
            = Inr (weighted_score 0.8 b d l ls)"
    by fastforce
  from combined_score_weights [OF s13 ne] obtain a'
    where a': "get_network_activity 13 = Inr a'"
      and each': "\<forall>c\<in>set ?cs. \<exists>b d l ls.
          uneven_probe (device_id example_device) (cloud_id c) = (b, d, l)
        \<and> load_score ?l (cloud_id c) = Inr ls
        \<and> candidate_score uneven_probe example_device ?l a' c
            = Inr (weighted_score a' b d l ls)"
    by (elim exE conjE) (rule that, assumption, blast)
  from a' a13 have "a' = 0.7" by simp
  with each' have idle: "\<exists>c\<in>set ?cs. \<exists>b d l ls.
          uneven_probe (device_id example_device) (cloud_id c) = (b, d, l)
        \<and> load_score ?l (cloud_id c) = Inr ls
        \<and> candidate_score uneven_probe example_device ?l 0.7 c
            = Inr (weighted_score 0.7 b d l ls)"
    by fastforce
  from ne a12 c1 c2 s12 a13 c3 c4 s13 busy idle show ?thesis
    by (intro conjI)
qed

subsection \<open>C8: the load counters only grow\<close>

text \<open>
  C8. The dictionary built at line 165 has the clouds' ids as its keys and 0 at every
  key. \<^verbatim>\<open>select_best_cloud\<close> only reads the dictionary (lines 110 and 114); in the model
  it takes the dictionary and returns none. One device's turn of the simulation loop
  either leaves the dictionary as it is, when the engine answers \<^verbatim>\<open>'self'\<close>, or adds
  exactly 1 to the winning cloud's counter and changes nothing else. Hence over the
  devices of one cycle, over any number of cycles from any state, and over a whole run,
  the keys stay and no counter decreases, also when an exception ends the run.
\<close>

theorem load_counters_only_grow:
  "fst ` set (initial_loads cs) = cloud_id ` set cs
   \<and> (\<forall>p\<in>set (initial_loads cs). snd p = 0)
   \<and> (\<forall>cloud_loads'. device_step m cs hour cloud_loads dev = Inr cloud_loads' \<longrightarrow>
        (\<exists>r. select_best_cloud m dev cs cloud_loads hour = Inr r
           \<and> (fst r = Self \<and> cloud_loads' = cloud_loads
              \<or> (\<exists>c n. fst r = Cloud c \<and> map_of cloud_loads (cloud_id c) = Some n
                    \<and> cloud_loads' = AList.update (cloud_id c) (n + 1) cloud_loads))))
   \<and> counters_nondecreasing cloud_loads (fst (run_devices m cs hour cloud_loads devs))
   \<and> counters_nondecreasing cloud_loads (fst (run_cycles cs devs cloud_loads cycles))
   \<and> counters_nondecreasing (initial_loads cs) (fst (run_simulation cs devs cycles))"
  using initial_loads_keys [of cs] initial_loads_zero [of cs]
    run_devices_nondecreasing [of cloud_loads m cs hour devs]
    run_cycles_nondecreasing [of cloud_loads cs devs cycles]
    run_cycles_nondecreasing [of "initial_loads cs" cs devs cycles]
  by (simp add: device_step_Inr run_simulation_def)

text \<open>
  A run of two cycles with two devices: in the first cycle, on the good network, cloud 1
  wins and then cloud 2 (whose load score is now the higher); in the second, on the poor
  network, both devices process locally and the counters stay.
\<close>

theorem load_counters_only_grow_witness:
  "initial_loads [example_cloud 1, example_cloud 2] = [(1, 0), (2, 0)]
   \<and> device_step good_probe [example_cloud 1, example_cloud 2] 9 [(1, 0), (2, 0)] example_device
       = Inr [(1, 1), (2, 0)]
   \<and> select_best_cloud good_probe example_device [example_cloud 1, example_cloud 2]
       [(1, 0), (2, 0)] 9 = Inr (Cloud (example_cloud 1), 500, 10, 0, 5)
   \<and> device_step poor_probe [example_cloud 1, example_cloud 2] 0 [(1, 1), (2, 1)] example_device
       = Inr [(1, 1), (2, 1)]
   \<and> run_simulation [example_cloud 1, example_cloud 2] [example_device, example_device]
       [(9, good_probe), (0, poor_probe)] = ([(1, 1), (2, 1)], None)
   \<and> counters_nondecreasing [(1, 0), (2, 0)] [(1, 1), (2, 1)]"
proof -
  let ?cs = "[example_cloud 1, example_cloud 2]"
  have c: "cloud_id (example_cloud 1) = 1" "cloud_id (example_cloud 2) = 2"
    by (simp_all add: example_cloud_def)
  have i: "initial_loads ?cs = [(1, 0), (2, 0)]"
    by (simp add: initial_loads_def c)
  have s1: "select_best_cloud good_probe example_device ?cs [(1, 0), (2, 0)] 9
      = Inr (Cloud (example_cloud 1), 500, 10, 0, 5)"
    by (simp add: engine_defs example_defs)
  have s2: "select_best_cloud good_probe example_device ?cs [(1, 1), (2, 0)] 9
      = Inr (Cloud (example_cloud 2), 500, 10, 0, 5)"
    by (simp add: engine_defs example_defs)
  have s3: "select_best_cloud poor_probe example_device ?cs [(1, 1), (2, 1)] 0
      = Inr (Self, 50, 10, 1, 4.28)"
    by (simp add: engine_defs example_defs)
  have d1: "device_step good_probe ?cs 9 [(1, 0), (2, 0)] example_device = Inr [(1, 1), (2, 0)]"
    unfolding device_step_def s1 by (simp add: increment_def c)
  have d2: "device_step good_probe ?cs 9 [(1, 1), (2, 0)] example_device = Inr [(1, 1), (2, 1)]"
    unfolding device_step_def s2 by (simp add: increment_def c)
  have d3: "device_step poor_probe ?cs 0 [(1, 1), (2, 1)] example_device = Inr [(1, 1), (2, 1)]"
    unfolding device_step_def s3 by simp
  have r: "run_simulation ?cs [example_device, example_device]
      [(9, good_probe), (0, poor_probe)] = ([(1, 1), (2, 1)], None)"
    by (simp only: run_simulation_def i run_cycles.simps run_devices.simps d1 d2 d3
          sum.case prod.case option.case)
  from load_counters_only_grow [of ?cs good_probe 9 "[(1, 0), (2, 0)]" example_device
      "[example_device, example_device]" "[(9, good_probe), (0, poor_probe)]"]
  have "counters_nondecreasing (initial_loads ?cs)
      (fst (run_simulation ?cs [example_device, example_device]
         [(9, good_probe), (0, poor_probe)]))"
    by blast
  with i r have "counters_nondecreasing [(1, 0), (2, 0)] [(1, 1), (2, 1)]" by simp
  with i s1 d1 d3 r show ?thesis by simp
qed

subsection \<open>C9: the rating of an unmeasured link\<close>

text \<open>
  C9. When none of the three patterns matches, \<^verbatim>\<open>measure_performance\<close> returns the
  triple (0, 0, 0), and \<^verbatim>\<open>calculate_rating\<close> gives that triple exactly 4: more than a
  measured link of 10 Mbit/s with 50 ms delay and 5 percent loss gets.
\<close>

theorem unmeasured_link_rated_4:
  "measure_performance None None None = (0, 0, 0) \<and> calculate_rating 0 0 0 = 4
   \<and> measure_performance (Some (10, M)) (Some 50) (Some 5) = (10, 50, 5)
   \<and> calculate_rating 10 50 5 < calculate_rating 0 0 0"
  by (simp add: measure_performance_def calculate_rating_def py_round_def round_half_even_def)

subsection \<open>C10: a non-empty scan always selects\<close>

text \<open>
  C10. For a non-empty candidate list: if the hour is one of 0 to 23 and the load
  dictionary is all zero or has every candidate's id, the engine returns; whatever it
  returns is never the initial \<^verbatim>\<open>None\<close> but \<^verbatim>\<open>'self'\<close> or one of the candidates;
  and the only way not to return is the \<^verbatim>\<open>KeyError\<close> of a lookup.
\<close>

theorem selection_never_none:
  assumes "cs \<noteq> []"
  shows "(0 \<le> hour \<and> hour \<le> 23
            \<and> (total_load cloud_loads = 0 \<or> (\<forall>c\<in>set cs. cloud_id c \<in> fst ` set cloud_loads))
          \<longrightarrow> (\<exists>r. select_best_cloud m dev cs cloud_loads hour = Inr r))
     \<and> (\<forall>r. select_best_cloud m dev cs cloud_loads hour = Inr r
          \<longrightarrow> fst r \<noteq> NoEntity \<and> (fst r = Self \<or> (\<exists>c\<in>set cs. fst r = Cloud c)))
     \<and> (\<forall>e. select_best_cloud m dev cs cloud_loads hour = Inl e \<longrightarrow> e = KeyError)"
proof (intro conjI allI impI)
  assume wf: "0 \<le> hour \<and> hour \<le> 23
      \<and> (total_load cloud_loads = 0 \<or> (\<forall>c\<in>set cs. cloud_id c \<in> fst ` set cloud_loads))"
  then obtain a where a: "get_network_activity hour = Inr a"
    using get_network_activity_defined [of hour] by blast
  from wf obtain st where "scan m dev cloud_loads a initial_state cs = Inr st"
    using scan_defined [of cloud_loads cs m dev a initial_state] by blast
  with a have "select_best_cloud m dev cs cloud_loads hour = Inr (finish dev st)"
    by (simp add: select_best_cloud_def)
  then show "\<exists>r. select_best_cloud m dev cs cloud_loads hour = Inr r" ..
next
  fix r
  assume r: "select_best_cloud m dev cs cloud_loads hour = Inr r"
  from selection_self_or_candidate [OF r assms]
  show "fst r = Self \<or> (\<exists>c\<in>set cs. fst r = Cloud c)" by blast
  then show "fst r \<noteq> NoEntity" by auto
next
  fix e
  assume "select_best_cloud m dev cs cloud_loads hour = Inl e"
  then show "e = KeyError"
    by (auto simp: select_best_cloud_def split: sum.splits
             dest: get_network_activity_error scan_error)
qed

text \<open>
  With loads for clouds 1 and 2, the candidates 2 and 1 give a selection (cloud 1, the
  less loaded); the candidates 2 and 3 raise \<^verbatim>\<open>KeyError\<close>, cloud 3 having no counter.
\<close>

theorem selection_never_none_witness:
  "[example_cloud 2, example_cloud 1] \<noteq> []
   \<and> (0::int) \<le> 9 \<and> (9::int) \<le> 23
   \<and> cloud_id (example_cloud 2) \<in> fst ` set [(1, 0), (2, 5::nat)]
   \<and> cloud_id (example_cloud 1) \<in> fst ` set [(1, 0), (2, 5::nat)]
   \<and> (\<exists>r. select_best_cloud good_probe example_device [example_cloud 2, example_cloud 1]
         [(1, 0), (2, 5)] 9 = Inr r)
   \<and> select_best_cloud good_probe example_device [example_cloud 2, example_cloud 1]
       [(1, 0), (2, 5)] 9 = Inr (Cloud (example_cloud 1), 500, 10, 0, 5)
   \<and> select_best_cloud good_probe example_device [example_cloud 2, example_cloud 3]
       [(1, 0), (2, 5)] 9 = Inl KeyError"
proof -
  let ?cs = "[example_cloud 2, example_cloud 1]"
  have ne: "?cs \<noteq> []" by simp
  have k: "cloud_id (example_cloud 2) \<in> fst ` set [(1, 0), (2, 5::nat)]
      \<and> cloud_id (example_cloud 1) \<in> fst ` set [(1, 0), (2, 5::nat)]"
    by (simp add: example_cloud_def)
  have s: "select_best_cloud good_probe example_device ?cs [(1, 0), (2, 5)] 9
      = Inr (Cloud (example_cloud 1), 500, 10, 0, 5)"
    by (simp add: engine_defs example_defs)
  have e: "select_best_cloud good_probe example_device [example_cloud 2, example_cloud 3]
      [(1, 0), (2, 5)] 9 = Inl KeyError"
    by (simp add: engine_defs example_defs)
  from selection_never_none [OF ne, of 9 "[(1, 0), (2, 5)]" good_probe example_device] k
  have "\<exists>r. select_best_cloud good_probe example_device ?cs [(1, 0), (2, 5)] 9 = Inr r"
    by simp
  with ne k s e show ?thesis by simp
qed

end
